theory Spec2Isabelle
  imports Main
begin

section \<open>The timer component of src/components/timer.tsx\<close>

text \<open>
  The component keeps one \<open>TimerState\<close> value and a list of log entries. Every
  change of the state is a React state update \<open>setState(prevState => ...)\<close>; each
  updater is embedded as a function from \<open>prevState\<close> to the new state. Where a
  handler also reads the state of the render that created it (the variable \<open>state\<close>
  of the source), that state is a separate argument, named \<open>state\<close> as in the source.

  The numbers of the component are JavaScript numbers holding integers far below
  \<open>2^53\<close>; they are modelled as \<open>int\<close>, and \<open>Math.floor (x / 100)\<close> as
  \<open>x div 100\<close> (both round towards minus infinity). A \<open>Date\<close> is its number of
  milliseconds since the epoch.
\<close>

subsection \<open>Data\<close>

datatype TimerMode = timer | stopwatch

datatype DisplayFormat = hms | ms

type_synonym Date = nat

record TimerState =
  mode :: TimerMode
  displayFormat :: DisplayFormat
  running :: bool
  paused :: bool
  time :: int
  timerSet :: int
  flash :: bool
  startTime :: "Date option"

text \<open>
  The interface \<open>LogEntry\<close> of the source has the fields \<open>id\<close>, \<open>startTime\<close>,
  \<open>duration\<close> and \<open>formattedDuration\<close>; the first two are prefixed here, since
  \<open>id\<close> is a constant of HOL and \<open>startTime\<close> a field of \<open>TimerState\<close>.
\<close>

record LogEntry =
  entryId :: string
  entryStartTime :: Date
  duration :: int
  formattedDuration :: string

subsection \<open>TIMER_CONSTANTS.TIME_LIMITS\<close>

definition TIMER_MAX :: int where
  "TIMER_MAX = 99 * 3600 + 59 * 60 + 59"

definition STOPWATCH_HMS_MAX :: int where
  "STOPWATCH_HMS_MAX = 99 * 3600 + 59 * 60 + 59"

definition STOPWATCH_MS_MAX :: int where
  "STOPWATCH_MS_MAX = 59 * 60 * 100 + 99"

subsection \<open>getMaxTime and formatTime\<close>

definition getMaxTime :: "TimerState \<Rightarrow> int" where
  "getMaxTime state =
     (if mode state = timer then TIMER_MAX
      else if displayFormat state = hms then STOPWATCH_HMS_MAX
      else STOPWATCH_MS_MAX)"

text \<open>\<open>Number.prototype.toString\<close> on a non-negative integer: its decimal digits.\<close>

definition digitChar :: "nat \<Rightarrow> char" where
  "digitChar d = ''0123456789'' ! d"

fun toString :: "nat \<Rightarrow> string" where
  "toString n = (if n < 10 then [digitChar n] else toString (n div 10) @ [digitChar (n mod 10)])"

declare toString.simps [simp del]

definition padStart :: "nat \<Rightarrow> char \<Rightarrow> string \<Rightarrow> string" where
  "padStart targetLength c s = replicate (targetLength - length s) c @ s"

text \<open>
  \<open>formatTime\<close> first takes \<open>Math.max(0, Math.floor(t))\<close>. In timer mode and in the
  stopwatch's \<open>hms\<close> format the value is read as seconds, in the \<open>ms\<close> format as
  centiseconds.
\<close>

definition formatHMS :: "nat \<Rightarrow> string" where
  "formatHMS t =
     (let hours = padStart 2 CHR ''0'' (toString (t div 3600));
          minutes = padStart 2 CHR ''0'' (toString ((t mod 3600) div 60));
          secs = padStart 2 CHR ''0'' (toString (t mod 60))
      in hours @ '':'' @ minutes @ '':'' @ secs)"

definition formatMS :: "nat \<Rightarrow> string" where
  "formatMS t =
     (let cs = t mod 100;
          totalSeconds = t div 100;
          minutes = padStart 2 CHR ''0'' (toString (totalSeconds div 60));
          secs = padStart 2 CHR ''0'' (toString (totalSeconds mod 60))
      in minutes @ '':'' @ secs @ ''.'' @ padStart 2 CHR ''0'' (toString cs))"

definition formatTime :: "TimerState \<Rightarrow> int \<Rightarrow> string" where
  "formatTime state t =
     (let t' = nat (max 0 t) in
      if mode state = timer then formatHMS t'
      else if displayFormat state = hms then formatHMS t'
      else formatMS t')"

subsection \<open>Handlers\<close>

text \<open>
  \<open>handleFormatToggle\<close>: the branch is chosen by the mode of the rendered state, the
  update is applied to \<open>prevState\<close>.
\<close>

definition handleFormatToggle :: "TimerState \<Rightarrow> TimerState \<Rightarrow> TimerState" where
  "handleFormatToggle state prevState =
     (if mode state = stopwatch then
        (let newFormat = (if displayFormat prevState = hms then ms else hms);
             newTime =
               (if displayFormat prevState = hms \<and> newFormat = ms then time prevState * 100
                else if displayFormat prevState = ms \<and> newFormat = hms then time prevState div 100
                else time prevState)
         in prevState\<lparr>displayFormat := newFormat, time := newTime\<rparr>)
      else prevState\<lparr>displayFormat := (if displayFormat prevState = hms then ms else hms)\<rparr>)"

text \<open>\<open>handleStartStop\<close>; \<open>now\<close> is the value of \<open>new Date()\<close>.\<close>

definition handleStartStop :: "Date \<Rightarrow> TimerState \<Rightarrow> TimerState" where
  "handleStartStop now prevState =
     (if paused prevState then prevState\<lparr>paused := False, running := True\<rparr>
      else if running prevState then prevState\<lparr>running := False, paused := True\<rparr>
      else prevState\<lparr>running := True, paused := False,
             startTime := (if mode prevState = stopwatch then Some now else startTime prevState)\<rparr>)"

text \<open>
  \<open>handleLog\<close> reads the rendered state, prepends the entry to the log and resets
  \<open>prevState\<close>; \<open>now\<close> is the value of \<open>Date.now()\<close>. It returns the new state and
  the new log.
\<close>

definition handleLog ::
  "TimerState \<Rightarrow> TimerState \<Rightarrow> LogEntry list \<Rightarrow> nat \<Rightarrow> TimerState \<times> LogEntry list" where
  "handleLog state prevState prevEntries now =
     (case startTime state of
        Some st \<Rightarrow>
          (if mode state = stopwatch \<and> time state > 0 then
             (prevState\<lparr>running := False, paused := False, time := 0, startTime := None\<rparr>,
              \<lparr>entryId = toString now, entryStartTime = st, duration = time state,
               formattedDuration = formatTime state (time state)\<rparr> # prevEntries)
           else (prevState, prevEntries))
      | None \<Rightarrow> (prevState, prevEntries))"

text \<open>
  \<open>handleClick\<close>: the meshes that the raycaster can hit, and the branch of each. The
  H, M and S branches share their updater, which differs in the increment only.
\<close>

datatype Button =
  buttonMesh | modeButtonMesh2 | modeButtonMesh | labelPlane
  | hButtonMesh | mButtonMesh | sButtonMesh

definition incrementTimerSet :: "TimerState \<Rightarrow> int \<Rightarrow> TimerState \<Rightarrow> TimerState" where
  "incrementTimerSet state increment prevState =
     (let newVal = timerSet prevState + increment in
      prevState\<lparr>timerSet := (if newVal \<le> getMaxTime state then newVal else timerSet prevState)\<rparr>)"

fun handleClick :: "Date \<Rightarrow> TimerState \<Rightarrow> Button \<Rightarrow> TimerState \<Rightarrow> TimerState" where
  "handleClick now state buttonMesh prevState = handleStartStop now prevState"
| "handleClick now state modeButtonMesh2 prevState =
     prevState\<lparr>mode := (if mode prevState = timer then stopwatch else timer),
       running := False, paused := False, time := 0, startTime := None\<rparr>"
| "handleClick now state modeButtonMesh prevState = handleFormatToggle state prevState"
| "handleClick now state labelPlane prevState =
     prevState\<lparr>running := False, paused := False,
       time := (if mode prevState = timer then timerSet prevState else 0),
       startTime := None\<rparr>"
| "handleClick now state hButtonMesh prevState =
     (if \<not> running state \<and> mode state = timer then incrementTimerSet state 3600 prevState
      else prevState)"
| "handleClick now state mButtonMesh prevState =
     (if \<not> running state \<and> mode state = timer then incrementTimerSet state 60 prevState
      else prevState)"
| "handleClick now state sButtonMesh prevState =
     (if \<not> running state \<and> mode state = timer then incrementTimerSet state 1 prevState
      else prevState)"

subsection \<open>Effects\<close>

text \<open>
  The interval of the timer/stopwatch effect exists only while the rendered state is
  running and not paused; its callback is \<open>timerTick\<close> in timer mode and
  \<open>stopwatchTick\<close> in stopwatch mode.
\<close>

definition timerTick :: "TimerState \<Rightarrow> TimerState" where
  "timerTick prevState =
     (if time prevState \<le> 1 then
        prevState\<lparr>running := False, paused := False, flash := True, time := 0\<rparr>
      else prevState\<lparr>time := time prevState - 1\<rparr>)"

definition stopwatchTick :: "TimerState \<Rightarrow> TimerState \<Rightarrow> TimerState" where
  "stopwatchTick state prevState =
     (let max = getMaxTime state in
      if time prevState \<ge> max then prevState
      else prevState\<lparr>time := time prevState + 1\<rparr>)"

definition tick :: "TimerState \<Rightarrow> TimerState \<Rightarrow> TimerState" where
  "tick state prevState =
     (if running state \<and> \<not> paused state then
        (if mode state = timer then timerTick prevState else stopwatchTick state prevState)
      else prevState)"

text \<open>
  The effect lists \<open>running\<close>, \<open>paused\<close>, \<open>mode\<close> and \<open>displayFormat\<close> as its
  dependencies, so the interval is set up again whenever one of them changes and every
  tick sees the values of the state it updates: a run of \<open>n\<close> ticks.
\<close>

primrec ticks :: "nat \<Rightarrow> TimerState \<Rightarrow> TimerState" where
  "ticks 0 s = s"
| "ticks (Suc n) s = ticks n (tick s s)"

text \<open>
  The flash effect: while the rendered state has \<open>flash\<close>, an interval of 300 ms runs
  \<open>flashToggle\<close>, and a timeout of 2000 ms runs \<open>flashStop\<close>.
\<close>

definition flashToggle :: "TimerState \<Rightarrow> TimerState" where
  "flashToggle prevState = prevState\<lparr>flash := \<not> flash prevState\<rparr>"

definition flashStop :: "TimerState \<Rightarrow> TimerState" where
  "flashStop prevState = prevState\<lparr>flash := False\<rparr>"

text \<open>The effect that copies \<open>timerSet\<close> into \<open>time\<close> while the timer is stopped.\<close>

definition syncTimerSet :: "TimerState \<Rightarrow> TimerState \<Rightarrow> TimerState" where
  "syncTimerSet state prevState =
     (if \<not> running state \<and> \<not> paused state \<and> mode state = timer
      then prevState\<lparr>time := timerSet prevState\<rparr>
      else prevState)"

subsection \<open>Initial state and the runs used below\<close>

text \<open>The initial value of \<open>useState\<close>.\<close>

definition initialState :: TimerState where
  "initialState =
     \<lparr>mode = stopwatch, displayFormat = hms, running = False, paused = False,
      time = 0, timerSet = 0, flash = False, startTime = None\<rparr>"

text \<open>The H, M and S buttons with their increments in seconds.\<close>

definition fieldButtons :: "(Button \<times> int) list" where
  "fieldButtons = [(hButtonMesh, 3600), (mButtonMesh, 60), (sButtonMesh, 1)]"

text \<open>
  Mode button, M button twice (the effect for the stopped timer runs after each click),
  start button: a countdown of 120 seconds that has just been started.
\<close>

definition timerStarted120 :: TimerState where
  "timerStarted120 =
     (let s0 = handleClick 0 initialState modeButtonMesh2 initialState;
          s1 = syncTimerSet s0 s0;
          s2 = handleClick 0 s1 mButtonMesh s1;
          s3 = syncTimerSet s2 s2;
          s4 = handleClick 0 s3 mButtonMesh s3;
          s5 = syncTimerSet s4 s4
      in handleClick 0 s5 buttonMesh s5)"

text \<open>Mode button, then start button with nothing set: a countdown of 0 seconds.\<close>

definition timerStopped0 :: TimerState where
  "timerStopped0 =
     (let s1 = handleClick 0 initialState modeButtonMesh2 initialState
      in syncTimerSet s1 s1)"

text \<open>The stopwatch, started at time 1000, after 65 ticks of one second.\<close>

definition stopwatch65 :: TimerState where
  "stopwatch65 = ticks 65 (handleClick 1000 initialState buttonMesh initialState)"

text \<open>
  The stopwatch switched to the \<open>ms\<close> format, started at time 1000, after 6500 ticks
  of ten milliseconds (65 seconds).
\<close>

definition stopwatchMs6500 :: TimerState where
  "stopwatchMs6500 =
     (let s1 = handleClick 0 initialState modeButtonMesh initialState
      in ticks 6500 (handleClick 1000 s1 buttonMesh s1))"

text \<open>
  The stopwatch after 3600 ticks of one second, and the same run after a click on
  the format button.
\<close>

definition stopwatchHour :: TimerState where
  "stopwatchHour = ticks 3600 (handleClick 1000 initialState buttonMesh initialState)"

definition stopwatchHourMs :: TimerState where
  "stopwatchHourMs = handleClick 2000 stopwatchHour modeButtonMesh stopwatchHour"

subsection \<open>The click handler and the render it closes over\<close>

text \<open>
  \<open>handleClick\<close> is registered by the effect that builds the scene. The dependency
  list of that effect is \<open>state.mode\<close>, \<open>state.displayFormat\<close>, \<open>handleStartStop\<close>,
  \<open>handleFormatToggle\<close> and \<open>getMaxTime\<close>; the three callbacks change only with the
  mode or the format. So the \<open>state\<close> that \<open>handleClick\<close> reads is the state of the
  last render in which the mode or the format changed (the first render at the start),
  while its updaters receive the current state. A \<open>Widget\<close> holds both.
\<close>

record Widget =
  captured :: TimerState
  engine :: TimerState

definition sceneEffect :: "TimerState \<Rightarrow> TimerState \<Rightarrow> TimerState \<Rightarrow> TimerState" where
  "sceneEffect closed previous rendered =
     (if mode rendered = mode previous \<and> displayFormat rendered = displayFormat previous
      then closed else rendered)"

text \<open>
  The effect for the stopped timer has the dependencies \<open>timerSet\<close>, \<open>running\<close>,
  \<open>paused\<close> and \<open>mode\<close>: it runs \<open>syncTimerSet\<close> after a render that changed one
  of them.
\<close>

definition timerSetEffect :: "TimerState \<Rightarrow> TimerState \<Rightarrow> TimerState" where
  "timerSetEffect previous rendered =
     (if timerSet rendered = timerSet previous \<and> running rendered = running previous
         \<and> paused rendered = paused previous \<and> mode rendered = mode previous
      then rendered else syncTimerSet rendered rendered)"

text \<open>One click: the update, the render, and the two effects.\<close>

definition click :: "Date \<Rightarrow> Button \<Rightarrow> Widget \<Rightarrow> Widget" where
  "click now b w =
     (let rendered = handleClick now (captured w) b (engine w)
      in \<lparr>captured = sceneEffect (captured w) (engine w) rendered,
          engine = timerSetEffect (engine w) rendered\<rparr>)"

definition mounted :: Widget where
  "mounted = \<lparr>captured = initialState, engine = initialState\<rparr>"

primrec clicks :: "Button list \<Rightarrow> Widget \<Rightarrow> Widget" where
  "clicks [] w = w"
| "clicks (b # bs) w = clicks bs (click 0 b w)"

text \<open>
  The widget after the clicks on the mode button, twice on the M button and on the start
  button: the countdown of 120 seconds is running.
\<close>

definition timerRunning120 :: Widget where
  "timerRunning120 = clicks [modeButtonMesh2, mButtonMesh, mButtonMesh, buttonMesh] mounted"

section \<open>Properties\<close>

subsection \<open>Facts shared by the proofs\<close>

lemma getMaxTime_timer: "mode state = timer \<Longrightarrow> getMaxTime state = 359999"
  by (simp add: getMaxTime_def TIMER_MAX_def)

lemma getMaxTime_le: "getMaxTime state \<le> 359999"
  by (simp add: getMaxTime_def TIMER_MAX_def STOPWATCH_HMS_MAX_def STOPWATCH_MS_MAX_def)

lemma getMaxTime_time_update [simp]: "getMaxTime (s\<lparr>time := t\<rparr>) = getMaxTime s"
  by (simp add: getMaxTime_def)

lemma ticks_not_running: "\<not> running s \<Longrightarrow> ticks n s = s"
  by (induction n) (simp_all add: tick_def)

text \<open>A running stopwatch after \<open>n\<close> ticks: the count stops at the maximum.\<close>

lemma ticks_stopwatch:
  "mode s = stopwatch \<Longrightarrow> running s \<Longrightarrow> \<not> paused s \<Longrightarrow>
   ticks n s = s\<lparr>time := (if getMaxTime s \<le> time s then time s
                           else min (time s + int n) (getMaxTime s))\<rparr>"
proof (induction n arbitrary: s)
  case 0
  then show ?case by simp
next
  case (Suc n)
  show ?case
  proof (cases "getMaxTime s \<le> time s")
    case True
    then have "tick s s = s"
      using Suc.prems by (simp add: tick_def stopwatchTick_def)
    then have "ticks (Suc n) s = ticks n s" by simp
    also have "\<dots> = s\<lparr>time := (if getMaxTime s \<le> time s then time s
                           else min (time s + int n) (getMaxTime s))\<rparr>"
      using Suc.prems by (rule Suc.IH)
    finally show ?thesis using True by simp
  next
    case False
    let ?s' = "s\<lparr>time := time s + 1\<rparr>"
    from False Suc.prems have step: "tick s s = ?s'"
      by (simp add: tick_def stopwatchTick_def)
    have "ticks n ?s' = ?s'\<lparr>time := (if getMaxTime ?s' \<le> time ?s' then time ?s'
                           else min (time ?s' + int n) (getMaxTime ?s'))\<rparr>"
      by (rule Suc.IH) (use Suc.prems in simp_all)
    then show ?thesis using False step by (simp add: min_def)
  qed
qed

text \<open>
  A running countdown after \<open>n\<close> ticks: it counts down to 1, and the tick that finds
  \<open>time \<le> 1\<close> stops it; no tick follows, since the interval exists only while running.
\<close>

lemma ticks_timer:
  "mode s = timer \<Longrightarrow> running s \<Longrightarrow> \<not> paused s \<Longrightarrow>
   ticks n s =
     (if n = 0 then s
      else if int n < time s then s\<lparr>time := time s - int n\<rparr>
      else s\<lparr>running := False, paused := False, flash := True, time := 0\<rparr>)"
proof (induction n arbitrary: s)
  case 0
  then show ?case by simp
next
  case (Suc n)
  show ?case
  proof (cases "time s \<le> 1")
    case True
    then have "tick s s = s\<lparr>running := False, paused := False, flash := True, time := 0\<rparr>"
      using Suc.prems by (simp add: tick_def timerTick_def)
    then show ?thesis using True by (simp add: ticks_not_running)
  next
    case False
    let ?s' = "s\<lparr>time := time s - 1\<rparr>"
    from False Suc.prems have step: "tick s s = ?s'"
      by (simp add: tick_def timerTick_def)
    have "ticks n ?s' =
     (if n = 0 then ?s'
      else if int n < time ?s' then ?s'\<lparr>time := time ?s' - int n\<rparr>
      else ?s'\<lparr>running := False, paused := False, flash := True, time := 0\<rparr>)"
      by (rule Suc.IH) (use Suc.prems in simp_all)
    then show ?thesis using False step by auto
  qed
qed

text \<open>The runs defined above, computed.\<close>

lemma timerStarted120_eq:
  "timerStarted120 =
     \<lparr>mode = timer, displayFormat = hms, running = True, paused = False,
      time = 120, timerSet = 120, flash = False, startTime = None\<rparr>"
  by (simp add: timerStarted120_def initialState_def Let_def incrementTimerSet_def
      getMaxTime_def TIMER_MAX_def syncTimerSet_def handleStartStop_def)

lemma timerStopped0_eq:
  "timerStopped0 =
     \<lparr>mode = timer, displayFormat = hms, running = False, paused = False,
      time = 0, timerSet = 0, flash = False, startTime = None\<rparr>"
  by (simp add: timerStopped0_def initialState_def Let_def syncTimerSet_def)

lemma stopwatch65_eq:
  "stopwatch65 =
     \<lparr>mode = stopwatch, displayFormat = hms, running = True, paused = False,
      time = 65, timerSet = 0, flash = False, startTime = Some 1000\<rparr>"
  by (simp add: stopwatch65_def initialState_def handleStartStop_def ticks_stopwatch
      getMaxTime_def STOPWATCH_HMS_MAX_def)

lemma stopwatchMs6500_eq:
  "stopwatchMs6500 =
     \<lparr>mode = stopwatch, displayFormat = ms, running = True, paused = False,
      time = 6500, timerSet = 0, flash = False, startTime = Some 1000\<rparr>"
  by (simp add: stopwatchMs6500_def initialState_def Let_def handleFormatToggle_def
      handleStartStop_def ticks_stopwatch getMaxTime_def STOPWATCH_MS_MAX_def)

lemma stopwatchHour_eq:
  "stopwatchHour =
     \<lparr>mode = stopwatch, displayFormat = hms, running = True, paused = False,
      time = 3600, timerSet = 0, flash = False, startTime = Some 1000\<rparr>"
  by (simp add: stopwatchHour_def initialState_def handleStartStop_def ticks_stopwatch
      getMaxTime_def STOPWATCH_HMS_MAX_def)

lemma stopwatchHourMs_eq:
  "stopwatchHourMs =
     \<lparr>mode = stopwatch, displayFormat = ms, running = True, paused = False,
      time = 360000, timerSet = 0, flash = False, startTime = Some 1000\<rparr>"
  by (simp add: stopwatchHourMs_def stopwatchHour_eq handleFormatToggle_def Let_def)

lemma timerRunning120_eq:
  "timerRunning120 = \<lparr>captured = timerStopped0, engine = timerStarted120\<rparr>"
  by (simp add: timerRunning120_def mounted_def click_def Let_def sceneEffect_def
      timerSetEffect_def syncTimerSet_def initialState_def incrementTimerSet_def
      getMaxTime_def TIMER_MAX_def handleStartStop_def timerStopped0_eq timerStarted120_eq)

text \<open>The largest times that the two formats can show.\<close>

lemma formatHMS_max: "formatHMS 359999 = ''99:59:59''"
  by (simp add: formatHMS_def padStart_def toString.simps digitChar_def)

lemma formatMS_max: "formatMS 359999 = ''59:59.99''"
  by (simp add: formatMS_def padStart_def toString.simps digitChar_def)

subsection \<open>The format button\<close>

text \<open>
  C10. In stopwatch mode the format toggle multiplies the stored time by 100 when it
  leaves the \<open>hms\<close> format and divides it by 100, rounding down, when it leaves the
  \<open>ms\<close> format. So two toggles that start in \<open>hms\<close> give the state back exactly,
  and two toggles that start in \<open>ms\<close> give the time rounded down to a whole second
  (a multiple of 100 centiseconds): the centiseconds below the second are lost.
\<close>

theorem format_toggle_twice:
  "mode state = stopwatch \<Longrightarrow> mode state' = stopwatch \<Longrightarrow>
   (if displayFormat p = hms
    then time (handleFormatToggle state p) = time p * 100
       \<and> handleFormatToggle state' (handleFormatToggle state p) = p
    else time (handleFormatToggle state p) = time p div 100
       \<and> handleFormatToggle state' (handleFormatToggle state p)
           = p\<lparr>time := time p div 100 * 100\<rparr>)
   \<and> time p div 100 * 100 = time p - time p mod 100"
  by (cases "displayFormat p") (simp_all add: handleFormatToggle_def Let_def minus_mod_eq_div_mult)

theorem format_toggle_twice_witness:
  "mode stopwatch65 = stopwatch
   \<and> handleFormatToggle stopwatch65 (handleFormatToggle stopwatch65 stopwatch65) = stopwatch65
   \<and> time (handleFormatToggle stopwatch65 (handleFormatToggle stopwatch65
             (stopwatchMs6500\<lparr>time := 6543\<rparr>))) = 6500"
  using format_toggle_twice [of stopwatch65 stopwatch65 stopwatch65]
    format_toggle_twice [of stopwatch65 stopwatch65 "stopwatchMs6500\<lparr>time := 6543\<rparr>"]
  by (simp add: stopwatch65_eq stopwatchMs6500_eq)

text \<open>
  C3, as stated, fails. It says that the toggle keeps the stored time and only reads
  it in the other unit. A stopwatch that shows 65 seconds in the \<open>hms\<close> format holds
  6500 after the toggle, not 65.
\<close>

theorem format_toggle_converts_time:
  "time stopwatch65 = 65
   \<and> time (handleFormatToggle stopwatch65 stopwatch65) = 6500
   \<and> time (handleFormatToggle stopwatch65 stopwatch65) \<noteq> time stopwatch65"
  by (simp add: stopwatch65_eq handleFormatToggle_def Let_def)

text \<open>
  C3 (amended). The toggle swaps \<open>displayFormat\<close> between \<open>hms\<close> and \<open>ms\<close> and
  never changes \<open>timerSet\<close>. In timer mode it keeps the stored time; in stopwatch
  mode it converts it: times 100 from \<open>hms\<close> to \<open>ms\<close>, divided by 100 and rounded down
  from \<open>ms\<close> to \<open>hms\<close>. No other field changes.
\<close>

theorem format_toggle_result:
  "displayFormat (handleFormatToggle state p) = (if displayFormat p = hms then ms else hms)
   \<and> timerSet (handleFormatToggle state p) = timerSet p
   \<and> time (handleFormatToggle state p) =
       (if mode state = stopwatch
        then (if displayFormat p = hms then time p * 100 else time p div 100)
        else time p)
   \<and> handleFormatToggle state p =
       p\<lparr>displayFormat := displayFormat (handleFormatToggle state p),
         time := time (handleFormatToggle state p)\<rparr>"
  by (cases "displayFormat p") (simp_all add: handleFormatToggle_def Let_def)

text \<open>
  C5, as stated, fails. It says that the toggle is ignored while the stopwatch runs.
  On the running stopwatch at 65 seconds the click on the format button changes the
  state: the format becomes \<open>ms\<close> and the run goes on.
\<close>

theorem format_toggle_while_running:
  "running stopwatch65
   \<and> handleClick 2000 stopwatch65 modeButtonMesh stopwatch65 \<noteq> stopwatch65
   \<and> displayFormat (handleClick 2000 stopwatch65 modeButtonMesh stopwatch65) = ms
   \<and> running (handleClick 2000 stopwatch65 modeButtonMesh stopwatch65)"
proof -
  have "displayFormat (handleClick 2000 stopwatch65 modeButtonMesh stopwatch65) = ms"
    by (simp add: stopwatch65_eq handleFormatToggle_def Let_def)
  moreover have "displayFormat stopwatch65 = hms"
    by (simp add: stopwatch65_eq)
  moreover have "running (handleClick 2000 stopwatch65 modeButtonMesh stopwatch65)"
    by (simp add: stopwatch65_eq handleFormatToggle_def Let_def)
  moreover have "running stopwatch65"
    by (simp add: stopwatch65_eq)
  ultimately show ?thesis by auto
qed

text \<open>
  C5 (amended). The click on the format button is applied in every state, running,
  paused or stopped: it always changes \<open>displayFormat\<close> and leaves \<open>running\<close> and
  \<open>paused\<close> as they were.
\<close>

theorem format_toggle_unguarded:
  "displayFormat (handleClick now state modeButtonMesh p) \<noteq> displayFormat p
   \<and> running (handleClick now state modeButtonMesh p) = running p
   \<and> paused (handleClick now state modeButtonMesh p) = paused p"
  by (cases "displayFormat p") (simp_all add: handleFormatToggle_def Let_def)

subsection \<open>The H, M and S buttons\<close>

text \<open>
  What the three branches do with the state they read: in timer mode they leave
  \<open>prevState\<close> as it is when \<open>state\<close> is running or when \<open>timerSet\<close> plus the
  increment would exceed 99:59:59 = 359999 seconds, and add the increment otherwise.
\<close>

lemma increment_branch:
  "(b, unit) \<in> set fieldButtons \<Longrightarrow> mode state = timer \<Longrightarrow>
   handleClick now state b prevState =
     (if running state \<or> timerSet prevState + unit > 359999 then prevState
      else prevState\<lparr>timerSet := timerSet prevState + unit\<rparr>)"
  by (auto simp: fieldButtons_def incrementTimerSet_def Let_def getMaxTime_timer)

text \<open>
  C7 says that in timer mode a click on the H, M or S button leaves the state unchanged
  whenever the timer is running. The branches test \<open>!state.running\<close>, but on the state
  that \<open>handleClick\<close> closed over, and the effect that registers \<open>handleClick\<close> does
  not list \<open>state.running\<close> among its dependencies. After the clicks on the mode
  button, twice on the M button and on the start button the countdown of 120 seconds is
  running, the handler still holds the stopped state, and a click on the H button adds
  3600 seconds to \<open>timerSet\<close>: the state of the running timer changes.
\<close>

theorem increment_while_running:
  "running (engine timerRunning120) \<and> mode (engine timerRunning120) = timer
   \<and> timerSet (engine timerRunning120) = 120
   \<and> timerSet (engine (click 0 hButtonMesh timerRunning120)) = 3720
   \<and> engine (click 0 hButtonMesh timerRunning120) \<noteq> engine timerRunning120"
proof -
  have e: "engine (click 0 hButtonMesh timerRunning120) = timerStarted120\<lparr>timerSet := 3720\<rparr>"
    by (simp add: timerRunning120_eq click_def Let_def timerSetEffect_def syncTimerSet_def
        incrementTimerSet_def getMaxTime_def TIMER_MAX_def timerStopped0_eq timerStarted120_eq)
  have after: "timerSet (engine (click 0 hButtonMesh timerRunning120)) = 3720"
    by (simp add: e)
  have before: "timerSet (engine timerRunning120) = 120" "running (engine timerRunning120)"
    "mode (engine timerRunning120) = timer"
    by (simp_all add: timerRunning120_eq timerStarted120_eq)
  from after before(1)
  have "engine (click 0 hButtonMesh timerRunning120) \<noteq> engine timerRunning120"
    by auto
  with after before show ?thesis by simp
qed

subsection \<open>The reset button\<close>

text \<open>
  C2, as stated, fails. It says that a reset leaves a time of 0 and a target of 0 (in
  a clock mode, which \<open>TimerMode\<close> does not have). On the countdown of 120 seconds
  that has just been started, the reset stops the run, stays in timer mode and shows the
  120 seconds again.
\<close>

theorem reset_click_keeps_mode_and_target:
  "mode (handleClick 0 timerStarted120 labelPlane timerStarted120) = timer
   \<and> time (handleClick 0 timerStarted120 labelPlane timerStarted120) = 120
   \<and> timerSet (handleClick 0 timerStarted120 labelPlane timerStarted120) = 120"
  by (simp add: timerStarted120_eq)

text \<open>
  C2 (amended). From every state the reset button yields \<open>running = false\<close>,
  \<open>paused = false\<close> and no start time; the time becomes \<open>timerSet\<close> in timer mode and
  0 in stopwatch mode; the mode, \<open>timerSet\<close>, the format and \<open>flash\<close> stay as they were.
\<close>

theorem reset_click_result:
  "running (handleClick now state labelPlane p) = False
   \<and> paused (handleClick now state labelPlane p) = False
   \<and> startTime (handleClick now state labelPlane p) = None
   \<and> time (handleClick now state labelPlane p) = (if mode p = timer then timerSet p else 0)
   \<and> mode (handleClick now state labelPlane p) = mode p
   \<and> timerSet (handleClick now state labelPlane p) = timerSet p
   \<and> displayFormat (handleClick now state labelPlane p) = displayFormat p
   \<and> flash (handleClick now state labelPlane p) = flash p"
  by simp

subsection \<open>The start/stop button in timer mode\<close>

text \<open>
  C6, as stated, fails. It says that the start button does nothing in timer mode while
  no duration is set. On the stopped timer with \<open>timerSet = 0\<close> the click starts the
  run, and the first tick of that run stops it and sets \<open>flash\<close>.
\<close>

theorem start_timer_zero_target:
  "mode timerStopped0 = timer \<and> timerSet timerStopped0 = 0
   \<and> running (handleClick 0 timerStopped0 buttonMesh timerStopped0)
   \<and> handleClick 0 timerStopped0 buttonMesh timerStopped0 \<noteq> timerStopped0
   \<and> flash (tick (handleClick 0 timerStopped0 buttonMesh timerStopped0)
               (handleClick 0 timerStopped0 buttonMesh timerStopped0))"
proof -
  let ?r = "handleClick 0 timerStopped0 buttonMesh timerStopped0"
  have run: "running ?r"
    by (simp add: timerStopped0_eq handleStartStop_def)
  have "\<not> running timerStopped0"
    by (simp add: timerStopped0_eq)
  with run have "?r \<noteq> timerStopped0" by auto
  moreover have "flash (tick ?r ?r)"
    by (simp add: timerStopped0_eq handleStartStop_def tick_def timerTick_def)
  moreover have "mode timerStopped0 = timer" "timerSet timerStopped0 = 0"
    by (simp_all add: timerStopped0_eq)
  ultimately show ?thesis using run by blast
qed

text \<open>
  C6 (amended). In timer mode the start button, pressed while the timer is neither
  running nor paused, starts the run whatever \<open>timerSet\<close> is: \<open>running\<close> becomes true
  and nothing else changes. When the time is at most 1, as it is with
  \<open>timerSet = 0\<close>, the first tick of the run stops it again and sets \<open>flash\<close>;
  otherwise the first tick counts one second down.
\<close>

theorem start_timer_regardless_of_target:
  "mode p = timer \<Longrightarrow> \<not> running p \<Longrightarrow> \<not> paused p \<Longrightarrow>
   handleStartStop now p = p\<lparr>running := True\<rparr>
   \<and> tick (handleStartStop now p) (handleStartStop now p) =
       (if time p \<le> 1 then p\<lparr>flash := True, time := 0\<rparr>
        else p\<lparr>running := True, time := time p - 1\<rparr>)"
  by (simp add: handleStartStop_def tick_def timerTick_def)

theorem start_timer_regardless_of_target_witness:
  "mode timerStopped0 = timer \<and> \<not> running timerStopped0 \<and> \<not> paused timerStopped0
   \<and> handleStartStop 0 timerStopped0 = timerStopped0\<lparr>running := True\<rparr>
   \<and> tick (handleStartStop 0 timerStopped0) (handleStartStop 0 timerStopped0)
       = timerStopped0\<lparr>flash := True, time := 0\<rparr>"
proof -
  have m: "mode timerStopped0 = timer" and nr: "\<not> running timerStopped0"
    and np: "\<not> paused timerStopped0" and t: "time timerStopped0 \<le> 1"
    by (simp_all add: timerStopped0_eq)
  note started = start_timer_regardless_of_target [OF m nr np, of 0]
  from started have "handleStartStop 0 timerStopped0 = timerStopped0\<lparr>running := True\<rparr>"
    by (rule conjunct1)
  moreover from started
  have "tick (handleStartStop 0 timerStopped0) (handleStartStop 0 timerStopped0)
       = (if time timerStopped0 \<le> 1 then timerStopped0\<lparr>flash := True, time := 0\<rparr>
          else timerStopped0\<lparr>running := True, time := time timerStopped0 - 1\<rparr>)"
    by (rule conjunct2)
  with t have "tick (handleStartStop 0 timerStopped0) (handleStartStop 0 timerStopped0)
       = timerStopped0\<lparr>flash := True, time := 0\<rparr>"
    by (simp only: if_True)
  ultimately show ?thesis using m nr np by blast
qed

subsection \<open>The end of a countdown\<close>

text \<open>
  C1, as stated, fails. It says that the end of the flash sets the mode to Clock and
  the target to 0. After the 120 ticks of the countdown of 120 seconds the state has
  \<open>flash\<close>, a time of 0 and is not running; after \<open>flashStop\<close> the mode is still
  \<open>timer\<close> (there is no other mode than \<open>timer\<close> and \<open>stopwatch\<close>) and \<open>timerSet\<close> is
  still 120.
\<close>

theorem timer_expiry_mode_not_reset:
  "flash (ticks 120 timerStarted120) \<and> time (ticks 120 timerStarted120) = 0
   \<and> \<not> running (ticks 120 timerStarted120)
   \<and> \<not> flash (flashStop (ticks 120 timerStarted120))
   \<and> mode (flashStop (ticks 120 timerStarted120)) = timer
   \<and> timerSet (flashStop (ticks 120 timerStarted120)) = 120"
  by (simp add: timerStarted120_eq ticks_timer flashStop_def)

text \<open>
  C1 (amended). In timer mode the tick that finds a time of at most 1, so that the
  remaining time reaches 0, sets \<open>running = false\<close>, \<open>paused = false\<close>,
  \<open>flash = true\<close> and \<open>time = 0\<close> (the effect for the stopped timer then copies
  \<open>timerSet\<close> back into the time). The update run by the timeout of the flash effect
  clears \<open>flash\<close> and changes nothing else: the mode stays \<open>timer\<close> and \<open>timerSet\<close>
  keeps its value.
\<close>

theorem timer_expiry_then_flashStop:
  "mode s = timer \<Longrightarrow> running s \<Longrightarrow> \<not> paused s \<Longrightarrow> time s \<le> 1 \<Longrightarrow>
   tick s s = s\<lparr>running := False, paused := False, flash := True, time := 0\<rparr>
   \<and> syncTimerSet (tick s s) (tick s s) =
       s\<lparr>running := False, paused := False, flash := True, time := timerSet s\<rparr>
   \<and> flashStop (tick s s) = s\<lparr>running := False, paused := False, flash := False, time := 0\<rparr>
   \<and> mode (flashStop (tick s s)) = timer
   \<and> timerSet (flashStop (tick s s)) = timerSet s"
  by (simp add: tick_def timerTick_def flashStop_def syncTimerSet_def)

theorem timer_expiry_then_flashStop_witness:
  "mode (ticks 119 timerStarted120) = timer \<and> running (ticks 119 timerStarted120)
   \<and> \<not> paused (ticks 119 timerStarted120) \<and> time (ticks 119 timerStarted120) \<le> 1
   \<and> flash (tick (ticks 119 timerStarted120) (ticks 119 timerStarted120))
   \<and> time (tick (ticks 119 timerStarted120) (ticks 119 timerStarted120)) = 0
   \<and> mode (flashStop (tick (ticks 119 timerStarted120) (ticks 119 timerStarted120))) = timer
   \<and> timerSet (flashStop (tick (ticks 119 timerStarted120) (ticks 119 timerStarted120))) = 120"
proof -
  let ?s = "ticks 119 timerStarted120"
  have s: "?s =
       \<lparr>mode = timer, displayFormat = hms, running = True, paused = False,
        time = 1, timerSet = 120, flash = False, startTime = None\<rparr>"
    by (simp add: timerStarted120_eq ticks_timer)
  have m: "mode ?s = timer" and r: "running ?s" and np: "\<not> paused ?s" and t: "time ?s \<le> 1"
    and ts: "timerSet ?s = 120"
    by (simp_all add: s)
  note expired = timer_expiry_then_flashStop [OF m r np t]
  from expired have e: "tick ?s ?s = ?s\<lparr>running := False, paused := False, flash := True, time := 0\<rparr>"
    by (rule conjunct1)
  have "flash (tick ?s ?s)" "time (tick ?s ?s) = 0"
    by (simp_all add: e)
  moreover from expired have "mode (flashStop (tick ?s ?s)) = timer"
    and "timerSet (flashStop (tick ?s ?s)) = timerSet ?s"
    by blast+
  ultimately show ?thesis using m r np t ts by simp
qed

subsection \<open>The log button\<close>

text \<open>
  C8. \<open>handleLog\<close> with a time of 0, or in a mode other than stopwatch, adds no entry
  to the log and leaves the state as it is; nothing is raised.
\<close>

theorem handleLog_noop:
  "time state = 0 \<or> mode state \<noteq> stopwatch \<Longrightarrow>
   handleLog state prevState prevEntries now = (prevState, prevEntries)"
  by (auto simp: handleLog_def split: option.splits)

theorem handleLog_noop_witness:
  "time (stopwatch65\<lparr>time := 0\<rparr>) = 0
   \<and> handleLog (stopwatch65\<lparr>time := 0\<rparr>) (stopwatch65\<lparr>time := 0\<rparr>) [] 2000
       = (stopwatch65\<lparr>time := 0\<rparr>, [])
   \<and> mode timerStarted120 \<noteq> stopwatch
   \<and> handleLog timerStarted120 timerStarted120 [] 2000 = (timerStarted120, [])"
  using handleLog_noop [of "stopwatch65\<lparr>time := 0\<rparr>" "stopwatch65\<lparr>time := 0\<rparr>" "[]" 2000]
    handleLog_noop [of timerStarted120 timerStarted120 "[]" 2000]
  by (simp add: stopwatch65_eq timerStarted120_eq)

lemma toString_2000: "toString 2000 = ''2000''"
  by code_simp

lemma formatHMS_65: "formatHMS 65 = ''00:01:05''"
  by code_simp

lemma formatMS_6500: "formatMS 6500 = ''01:05.00''"
  by code_simp

text \<open>
  C4, as stated, fails. It says that the entry holds the duration in seconds whatever
  the format is. The stopwatch in the \<open>ms\<close> format after 65 seconds holds 6500
  centiseconds, and its entry has the duration 6500, not 65.
\<close>

theorem handleLog_duration_centiseconds:
  "displayFormat stopwatchMs6500 = ms \<and> time stopwatchMs6500 = 6500
   \<and> map duration (snd (handleLog stopwatchMs6500 stopwatchMs6500 [] 2000)) = [6500]
   \<and> map formattedDuration (snd (handleLog stopwatchMs6500 stopwatchMs6500 [] 2000))
       = [''01:05.00'']"
  by (simp add: stopwatchMs6500_eq handleLog_def formatTime_def formatMS_6500)

text \<open>
  C4 (amended). A successful \<open>handleLog\<close> (stopwatch mode, a start time, a time above
  0) prepends one entry whose duration is the stored time as it is, without
  conversion: seconds in the \<open>hms\<close> format, centiseconds in the \<open>ms\<close> format. Its
  formatted duration is the time in the active format, and the state is stopped with
  time 0 and no start time. In particular a stopwatch session of 65 seconds in the
  \<open>hms\<close> format yields the duration 65 and the text 00:01:05.
\<close>

theorem handleLog_entry:
  "mode state = stopwatch \<Longrightarrow> startTime state = Some st \<Longrightarrow> time state > 0 \<Longrightarrow>
   handleLog state prevState prevEntries now =
     (prevState\<lparr>running := False, paused := False, time := 0, startTime := None\<rparr>,
      \<lparr>entryId = toString now, entryStartTime = st, duration = time state,
       formattedDuration = (if displayFormat state = hms then formatHMS (nat (time state))
                            else formatMS (nat (time state)))\<rparr> # prevEntries)
   \<and> formatHMS 65 = ''00:01:05''"
  by (simp add: handleLog_def formatTime_def Let_def formatHMS_65)

theorem handleLog_entry_witness:
  "mode stopwatch65 = stopwatch \<and> startTime stopwatch65 = Some 1000 \<and> time stopwatch65 > 0
   \<and> handleLog stopwatch65 stopwatch65 [] 2000 =
       (initialState,
        [\<lparr>entryId = ''2000'', entryStartTime = 1000, duration = 65,
          formattedDuration = ''00:01:05''\<rparr>])"
proof -
  have m: "mode stopwatch65 = stopwatch" and st: "startTime stopwatch65 = Some 1000"
    and t: "time stopwatch65 > 0" and t65: "time stopwatch65 = 65"
    and f: "displayFormat stopwatch65 = hms"
    by (simp_all add: stopwatch65_eq)
  have stopped: "stopwatch65\<lparr>running := False, paused := False, time := 0, startTime := None\<rparr>
      = initialState"
    by (simp add: stopwatch65_eq initialState_def)
  from handleLog_entry [OF m st t, of stopwatch65 "[]" 2000]
  have "handleLog stopwatch65 stopwatch65 [] 2000 =
     (stopwatch65\<lparr>running := False, paused := False, time := 0, startTime := None\<rparr>,
      \<lparr>entryId = toString 2000, entryStartTime = 1000, duration = time stopwatch65,
       formattedDuration = (if displayFormat stopwatch65 = hms
                            then formatHMS (nat (time stopwatch65))
                            else formatMS (nat (time stopwatch65)))\<rparr> # [])"
    by (rule conjunct1)
  then have "handleLog stopwatch65 stopwatch65 [] 2000 =
       (initialState,
        [\<lparr>entryId = ''2000'', entryStartTime = 1000, duration = 65,
          formattedDuration = ''00:01:05''\<rparr>])"
    by (simp add: stopped t65 f toString_2000 formatHMS_65)
  then show ?thesis using m st t by blast
qed

subsection \<open>Runs of ticks\<close>

text \<open>
  C9, as stated, fails, in two ways. In timer mode the time is the remaining time and
  a tick decreases it: the countdown of 120 seconds shows 119 after one tick. And the
  maximum can be exceeded while running: the stopwatch that has run for 3600 seconds
  holds 360000 after a click on the format button, above 59:59.99 = 359999
  centiseconds, and a tick leaves it there.
\<close>

theorem ticks_decrease_or_exceed:
  "running timerStarted120 \<and> time (ticks 0 timerStarted120) = 120
   \<and> time (ticks 1 timerStarted120) = 119
   \<and> running stopwatchHourMs \<and> mode stopwatchHourMs = stopwatch
   \<and> displayFormat stopwatchHourMs = ms
   \<and> time (ticks 1 stopwatchHourMs) = 360000"
proof -
  have "running timerStarted120" "time (ticks 0 timerStarted120) = 120"
    "time (ticks 1 timerStarted120) = 119"
    by (simp_all add: timerStarted120_eq tick_def timerTick_def)
  moreover have "running stopwatchHourMs" "mode stopwatchHourMs = stopwatch"
    "displayFormat stopwatchHourMs = ms" "time (ticks 1 stopwatchHourMs) = 360000"
    by (simp_all add: stopwatchHourMs_eq tick_def stopwatchTick_def getMaxTime_def
        STOPWATCH_MS_MAX_def)
  ultimately show ?thesis by blast
qed

text \<open>
  C9 (amended). Take a running state whose time is between 0 and 359999, which is
  99:59:59 in seconds (timer, stopwatch in the \<open>hms\<close> format) and 59:59.99 in
  centiseconds (stopwatch in the \<open>ms\<close> format). Then after any number of ticks the
  time is still at most 359999. In stopwatch mode the time never decreases from one
  tick to a later one. In timer mode, where the time is the remaining time, it never
  increases, so that the time counted down so far, \<open>timerSet\<close> minus the time, never
  decreases.
\<close>

theorem ticks_bounded_monotone:
  "running s \<Longrightarrow> \<not> paused s \<Longrightarrow> 0 \<le> time s \<Longrightarrow> time s \<le> 359999 \<Longrightarrow>
   time (ticks n s) \<le> 359999
   \<and> (if mode s = stopwatch then time (ticks n s) \<le> time (ticks (n + k) s)
      else time (ticks (n + k) s) \<le> time (ticks n s)
         \<and> timerSet (ticks n s) - time (ticks n s)
             \<le> timerSet (ticks (n + k) s) - time (ticks (n + k) s))"
proof (cases "mode s")
  case timer
  assume "running s" "\<not> paused s" "0 \<le> time s" "time s \<le> 359999"
  then show ?thesis using timer by (simp add: ticks_timer)
next
  case stopwatch
  assume "running s" "\<not> paused s" "0 \<le> time s" "time s \<le> 359999"
  then show ?thesis using stopwatch getMaxTime_le [of s]
    by (auto simp add: ticks_stopwatch min_def)
qed

theorem ticks_bounded_monotone_witness:
  "running stopwatch65 \<and> \<not> paused stopwatch65 \<and> 0 \<le> time stopwatch65
   \<and> time stopwatch65 \<le> 359999
   \<and> time (ticks 10 stopwatch65) \<le> 359999
   \<and> time (ticks 10 stopwatch65) \<le> time (ticks (10 + 5) stopwatch65)
   \<and> running timerStarted120 \<and> \<not> paused timerStarted120 \<and> 0 \<le> time timerStarted120
   \<and> time timerStarted120 \<le> 359999
   \<and> time (ticks 10 timerStarted120) \<le> 359999
   \<and> time (ticks (10 + 5) timerStarted120) \<le> time (ticks 10 timerStarted120)
   \<and> running (stopwatchMs6500\<lparr>time := 355000\<rparr>) \<and> \<not> paused (stopwatchMs6500\<lparr>time := 355000\<rparr>)
   \<and> 0 \<le> time (stopwatchMs6500\<lparr>time := 355000\<rparr>)
   \<and> time (stopwatchMs6500\<lparr>time := 355000\<rparr>) \<le> 359999
   \<and> time (ticks 10 (stopwatchMs6500\<lparr>time := 355000\<rparr>)) \<le> 359999"
proof -
  let ?f = "stopwatchMs6500\<lparr>time := 355000\<rparr>"
  have sw: "running stopwatch65" "\<not> paused stopwatch65" "0 \<le> time stopwatch65"
    "time stopwatch65 \<le> 359999"
    and swm: "mode stopwatch65 = stopwatch"
    by (simp_all add: stopwatch65_eq)
  have tm: "running timerStarted120" "\<not> paused timerStarted120" "0 \<le> time timerStarted120"
    "time timerStarted120 \<le> 359999"
    and tmm: "mode timerStarted120 \<noteq> stopwatch"
    by (simp_all add: timerStarted120_eq)
  have fr: "running ?f" "\<not> paused ?f" "0 \<le> time ?f" "time ?f \<le> 359999"
    by (simp_all add: stopwatchMs6500_eq)
  note t1 = ticks_bounded_monotone [OF sw, of 10 5]
  note t2 = ticks_bounded_monotone [OF tm, of 10 5]
  note t3 = ticks_bounded_monotone [OF fr, of 10 5]
  from t1 have a1: "time (ticks 10 stopwatch65) \<le> 359999"
    by (rule conjunct1)
  from t1 [THEN conjunct2] swm
  have a2: "time (ticks 10 stopwatch65) \<le> time (ticks (10 + 5) stopwatch65)"
    by (simp only: simp_thms if_True)
  from t2 have b1: "time (ticks 10 timerStarted120) \<le> 359999"
    by (rule conjunct1)
  from t2 [THEN conjunct2] tmm
  have "time (ticks (10 + 5) timerStarted120) \<le> time (ticks 10 timerStarted120)
         \<and> timerSet (ticks 10 timerStarted120) - time (ticks 10 timerStarted120)
             \<le> timerSet (ticks (10 + 5) timerStarted120) - time (ticks (10 + 5) timerStarted120)"
    by (simp only: if_False)
  then have b2: "time (ticks (10 + 5) timerStarted120) \<le> time (ticks 10 timerStarted120)"
    by (rule conjunct1)
  from t3 have c1: "time (ticks 10 ?f) \<le> 359999"
    by (rule conjunct1)
  from sw a1 a2 tm b1 b2 fr c1 show ?thesis
    by (intro conjI)
qed

end
